theory Spec2Isabelle
  imports Main "HOL-Library.AList"
begin

section \<open>JavaScript values\<close>

text \<open>
  The values that flow through \<open>fetchRuntimeParameters.js\<close>: \<open>undefined\<close>, \<open>null\<close>,
  booleans, integer-valued numbers, strings and plain objects (an association list of
  own properties, in insertion order). Objects held in a \<open>jsval\<close> are never mutated by
  the module, so they are values here; the two parameter objects that the module does
  write to live in an explicit heap (see \<open>world\<close>).
\<close>

datatype jsval =
    Undefined
  | Null
  | JBool bool
  | JNum int
  | JStr string
  | JObj "(string \<times> jsval) list"

type_synonym obj = "(string \<times> jsval) list"

text \<open>JavaScript truthiness, as tested by \<open>!x\<close>, \<open>x || y\<close> and \<open>if (x)\<close>.\<close>

fun truthy :: "jsval \<Rightarrow> bool" where
  "truthy Undefined = False"
| "truthy Null = False"
| "truthy (JBool b) = b"
| "truthy (JNum n) = (n \<noteq> 0)"
| "truthy (JStr s) = (s \<noteq> [])"
| "truthy (JObj ps) = True"

text \<open>\<open>a || b\<close> on operands without effects: the first operand if it is truthy.\<close>

definition js_or :: "jsval \<Rightarrow> jsval \<Rightarrow> jsval" where
  "js_or a b = (if truthy a then a else b)"

definition digit :: "nat \<Rightarrow> char" where
  "digit n = ''0123456789'' ! n"

function string_of_nat :: "nat \<Rightarrow> string" where
  "string_of_nat n =
     (if n < 10 then [digit n] else string_of_nat (n div 10) @ [digit (n mod 10)])"
  by pat_completeness auto
termination
  by (relation "measure id") auto

text \<open>
  The string conversion that \<open>+\<close> applies to an operand when the other one is a string
  (\<open>context.ampUrlPrefix + '-' + context.lts\<close>).
\<close>

fun to_string :: "jsval \<Rightarrow> string" where
  "to_string Undefined = ''undefined''"
| "to_string Null = ''null''"
| "to_string (JBool b) = (if b then ''true'' else ''false'')"
| "to_string (JNum n) = (if n < 0 then ''-'' @ string_of_nat (nat (- n)) else string_of_nat (nat n))"
| "to_string (JStr s) = s"
| "to_string (JObj ps) = ''[object Object]''"

definition lookup :: "obj \<Rightarrow> string \<Rightarrow> jsval" where
  "lookup ps k = (case map_of ps k of None \<Rightarrow> Undefined | Some v \<Rightarrow> v)"

section \<open>Errors\<close>

text \<open>
  \<open>TypeError\<close> is what the engine raises on a property read of \<open>undefined\<close> or on a
  call of something that is not a function; \<open>Failure m\<close> is a rejection that comes out
  of a collaborator (cache, fetch, version source, rule provider).
\<close>

datatype err = TypeError | Failure string

text \<open>The property read \<open>v.k\<close>, for the property names this module reads.\<close>

fun get_prop :: "jsval \<Rightarrow> string \<Rightarrow> err + jsval" where
  "get_prop Undefined k = Inl TypeError"
| "get_prop Null k = Inl TypeError"
| "get_prop (JObj ps) k = Inr (lookup ps k)"
| "get_prop (JBool b) k = Inr Undefined"
| "get_prop (JNum n) k = Inr Undefined"
| "get_prop (JStr s) k = Inr Undefined"

section \<open>Collaborators and the world\<close>

text \<open>The \<open>Response\<close> of the fetch capability: \<open>.ok\<close> and the outcome of \<open>.text()\<close>.\<close>

record response =
  resp_ok :: bool
  resp_text :: "err + string"

text \<open>
  The optimizer config: its data properties (\<open>verbose\<close>, \<open>lts\<close>, \<open>rtv\<close>,
  \<open>validatorRules\<close>, and whatever else the caller put there) and the capabilities
  \<open>config.fetch\<close> and \<open>config.runtimeVersion.currentVersion\<close>. \<open>config.log\<close> writes
  to the log of the world.
\<close>

record config =
  props :: obj
  fetch :: "string \<Rightarrow> err + response"
  currentVersion :: "jsval list \<Rightarrow> err + jsval"

text \<open>
  What a function receives in its \<open>config\<close> parameter: a config object, or some other
  value (line 97 of the source passes a string there).
\<close>

datatype cfg = Config config | Prim jsval

text \<open>
  The module-level imports that are not part of the source file: the constants of
  \<open>AmpConstants.js\<close>, the validator rule provider and the platform's URL parser.
\<close>

record env =
  AMP_CACHE_HOST :: string
  AMP_RUNTIME_CSS_PATH :: string
  appendRuntimeVersion :: "jsval \<Rightarrow> jsval \<Rightarrow> string"
  validatorRulesProvider_fetch :: "jsval list \<Rightarrow> err + jsval"
  url_parses :: "string \<Rightarrow> bool"

datatype log_entry =
    LogWarn string
  | LogError string "err option"
  | ConsoleLog "jsval list"

text \<open>
  A call of an async function that is not awaited: its body has run up to its first
  \<open>await\<close>, the rest waits for the awaited outcome. \<open>Refresh key r\<close> is the rest of
  \<open>fetchLatestRuntimeData_\<close> for \<open>versionKey = key\<close>, waiting on the version source's
  outcome \<open>r\<close>.
\<close>

datatype bg_task = Refresh string "err + jsval"

text \<open>
  The world that a call runs in and changes: the heap of parameter objects; the cache,
  as the entries it holds and, for the keys it cannot read, the failure that a read
  rejects with; the clock, in seconds; the lines logged; the calls made to the fetch
  capability, the version source and the rule provider, in order; and the unawaited
  tasks. The collaborators answer as functions of their arguments.
\<close>

record world =
  heap :: "obj list"
  cache_store :: "string \<rightharpoonup> jsval"
  cache_get_error :: "string \<rightharpoonup> err"
  clock :: int
  logged :: "log_entry list"
  fetch_calls :: "string list"
  version_calls :: "jsval list list"
  rules_calls :: "jsval list list"
  pending :: "bg_task list"

section \<open>Programs: state and exceptions\<close>

type_synonym 'a prog = "world \<Rightarrow> (err + 'a) \<times> world"

definition returnP :: "'a \<Rightarrow> 'a prog" where
  "returnP x = (\<lambda>w. (Inr x, w))"

definition throwP :: "err \<Rightarrow> 'a prog" where
  "throwP e = (\<lambda>w. (Inl e, w))"

definition bindP :: "'a prog \<Rightarrow> ('a \<Rightarrow> 'b prog) \<Rightarrow> 'b prog" where
  "bindP m f = (\<lambda>w. case m w of (Inl e, w') \<Rightarrow> (Inl e, w') | (Inr x, w') \<Rightarrow> f x w')"

text \<open>\<open>try { m } catch (error) { h error }\<close>\<close>

definition tryP :: "'a prog \<Rightarrow> (err \<Rightarrow> 'a prog) \<Rightarrow> 'a prog" where
  "tryP m h = (\<lambda>w. case m w of (Inl e, w') \<Rightarrow> h e w' | (Inr x, w') \<Rightarrow> (Inr x, w'))"

definition liftE :: "err + 'a \<Rightarrow> 'a prog" where
  "liftE r = (\<lambda>w. (r, w))"

subsection \<open>The cache\<close>

text \<open>
  \<open>await cache.get(key)\<close>: rejects for a key the cache cannot read, and yields
  \<open>undefined\<close> for a key that has no entry.
\<close>

definition cache_value :: "world \<Rightarrow> string \<Rightarrow> jsval" where
  "cache_value w key = (case cache_store w key of None \<Rightarrow> Undefined | Some v \<Rightarrow> v)"

definition cache_get :: "string \<Rightarrow> jsval prog" where
  "cache_get key = (\<lambda>w.
     case cache_get_error w key of
       Some e \<Rightarrow> (Inl e, w)
     | None \<Rightarrow> (Inr (cache_value w key), w))"

text \<open>\<open>cache.set(key, value)\<close>, which the module never awaits.\<close>

definition cache_set :: "string \<Rightarrow> jsval \<Rightarrow> unit prog" where
  "cache_set key v = (\<lambda>w. (Inr (), w\<lparr>cache_store := (cache_store w)(key \<mapsto> v)\<rparr>))"

subsection \<open>The capabilities of the config\<close>

definition config_log_warn :: "cfg \<Rightarrow> string \<Rightarrow> unit prog" where
  "config_log_warn c msg = (\<lambda>w.
     case c of
       Prim v \<Rightarrow> (Inl TypeError, w)
     | Config cf \<Rightarrow> (Inr (), w\<lparr>logged := logged w @ [LogWarn msg]\<rparr>))"

definition config_log_error :: "cfg \<Rightarrow> string \<Rightarrow> err option \<Rightarrow> unit prog" where
  "config_log_error c msg e = (\<lambda>w.
     case c of
       Prim v \<Rightarrow> (Inl TypeError, w)
     | Config cf \<Rightarrow> (Inr (), w\<lparr>logged := logged w @ [LogError msg e]\<rparr>))"

definition config_fetch :: "cfg \<Rightarrow> string \<Rightarrow> response prog" where
  "config_fetch c url = (\<lambda>w.
     case c of
       Prim v \<Rightarrow> (Inl TypeError, w)
     | Config cf \<Rightarrow> (fetch cf url, w\<lparr>fetch_calls := fetch_calls w @ [url]\<rparr>))"

definition config_currentVersion :: "cfg \<Rightarrow> jsval list \<Rightarrow> jsval prog" where
  "config_currentVersion c args = (\<lambda>w.
     case c of
       Prim v \<Rightarrow> (Inl TypeError, w)
     | Config cf \<Rightarrow> (currentVersion cf args, w\<lparr>version_calls := version_calls w @ [args]\<rparr>))"

definition validatorRulesProvider :: "env \<Rightarrow> jsval list \<Rightarrow> jsval prog" where
  "validatorRulesProvider env args = (\<lambda>w.
     (validatorRulesProvider_fetch env args, w\<lparr>rules_calls := rules_calls w @ [args]\<rparr>))"

definition console_log :: "jsval list \<Rightarrow> unit prog" where
  "console_log args = (\<lambda>w. (Inr (), w\<lparr>logged := logged w @ [ConsoleLog args]\<rparr>))"

subsection \<open>MaxAge\<close>

definition AMP_RUNTIME_MAX_AGE :: int where
  "AMP_RUNTIME_MAX_AGE = 10 * 60"

definition KEY_VALIDATOR_RULES :: string where
  "KEY_VALIDATOR_RULES = ''validator-rules''"

text \<open>
  Modelled from the spec: the class \<open>MaxAge\<close> of \<open>@ampproject/toolbox-core\<close> is not
  part of the source file. The spec describes a MaxAge stamp as a creation time plus a
  duration, stale once \<open>now > createdAt + duration\<close>. \<open>MaxAge_create now d\<close> is
  \<open>MaxAge.create(d).toJson()\<close> evaluated at time \<open>now\<close> (in seconds), and
  \<open>MaxAge_isExpired j now\<close> is \<open>MaxAge.fromJson(j).isExpired()\<close> at time \<open>now\<close>; a
  value that is not such a stamp raises.
\<close>

definition MaxAge_create :: "int \<Rightarrow> int \<Rightarrow> jsval" where
  "MaxAge_create now d = JObj [(''createdAt'', JNum now), (''duration'', JNum d)]"

fun MaxAge_isExpired :: "jsval \<Rightarrow> int \<Rightarrow> err + bool" where
  "MaxAge_isExpired (JObj ps) now =
     (case (lookup ps ''createdAt'', lookup ps ''duration'') of
        (JNum c, JNum d) \<Rightarrow> Inr (now > c + d)
      | _ \<Rightarrow> Inl TypeError)"
| "MaxAge_isExpired _ now = Inl TypeError"

section \<open>The module\<close>

text \<open>
  The private functions of the source end in an underscore (\<open>fetchValidatorRules_\<close>),
  which a constant name here cannot; they keep their names without it.
\<close>

subsection \<open>\<open>_isAbsoluteUrl\<close>\<close>

text \<open>\<open>new URL(url)\<close> converts its argument to a string and parses it; a throw is \<open>false\<close>.\<close>

definition isAbsoluteUrl :: "env \<Rightarrow> jsval \<Rightarrow> bool" where
  "isAbsoluteUrl env url = url_parses env (to_string url)"

subsection \<open>\<open>downloadAmpRuntimeStyles_\<close>\<close>

definition downloadAmpRuntimeStyles :: "cfg \<Rightarrow> string \<Rightarrow> jsval prog" where
  "downloadAmpRuntimeStyles config runtimeCssUrl =
     bindP (cache_get runtimeCssUrl) (\<lambda>styles.
       if \<not> truthy styles then
         bindP (config_fetch config runtimeCssUrl) (\<lambda>response.
           if \<not> resp_ok response then returnP Null
           else
             bindP (liftE (resp_text response)) (\<lambda>body.
             bindP (cache_set runtimeCssUrl (JStr body)) (\<lambda>_.
             returnP (JStr body))))
       else returnP styles)"

subsection \<open>\<open>fetchAmpRuntimeStyles_\<close>\<close>

lemma bindP_cong [fundef_cong]:
  "m = m' \<Longrightarrow> (\<And>x w w'. m' w = (Inr x, w') \<Longrightarrow> f x w' = f' x w') \<Longrightarrow> bindP m f = bindP m' f'"
  by (auto simp: bindP_def fun_eq_iff split: prod.splits sum.splits)

text \<open>
  The recursive call of line 97 passes two arguments to a function of three: the
  host lands in \<open>config\<close>, the version in \<open>ampUrlPrefix\<close>, and \<open>ampRuntimeVersion\<close> is
  \<open>undefined\<close>.
\<close>

function fetchAmpRuntimeStyles :: "env \<Rightarrow> cfg \<Rightarrow> jsval \<Rightarrow> jsval \<Rightarrow> jsval prog" where
  "fetchAmpRuntimeStyles env config ampUrlPrefix ampRuntimeVersion =
     bindP
       (if truthy ampUrlPrefix \<and> \<not> isAbsoluteUrl env ampUrlPrefix then
          bindP (config_log_warn config
            ''AMP runtime styles cannot be fetched from relative ampUrlPrefix, please use the 'ampRuntimeStyles' parameter to provide the correct runtime style.'') (\<lambda>_.
          bindP (if truthy ampRuntimeVersion then returnP ampRuntimeVersion
                 else config_currentVersion config []) (\<lambda>v.
          returnP (JStr (AMP_CACHE_HOST env), v)))
        else returnP (ampUrlPrefix, ampRuntimeVersion))
       (\<lambda>(ampUrlPrefix, ampRuntimeVersion).
     let runtimeCssUrl =
           appendRuntimeVersion env (js_or ampUrlPrefix (JStr (AMP_CACHE_HOST env))) ampRuntimeVersion
             @ AMP_RUNTIME_CSS_PATH env
     in
     bindP (downloadAmpRuntimeStyles config runtimeCssUrl) (\<lambda>styles.
       if \<not> truthy styles then
         bindP (config_log_error config (''Could not download '' @ runtimeCssUrl) None) (\<lambda>_.
           if truthy ampUrlPrefix \<or> truthy ampRuntimeVersion then
             bindP (config_currentVersion config []) (\<lambda>v.
               fetchAmpRuntimeStyles env (Prim (JStr (AMP_CACHE_HOST env))) v Undefined)
           else returnP (JStr ''''))
       else returnP styles))"
  by pat_completeness auto

termination
  by (relation "measure (\<lambda>(env, config, ampUrlPrefix, ampRuntimeVersion).
         case config of Config cf \<Rightarrow> 1 | Prim v \<Rightarrow> 0)")
     (auto simp: config_currentVersion_def split: cfg.splits)

declare fetchAmpRuntimeStyles.simps [simp del]

subsection \<open>\<open>fetchLatestRuntimeData_\<close>\<close>

text \<open>The object \<open>{config, ampUrlPrefix, lts}\<close> that line 61 builds.\<close>

record call_context =
  ctx_config :: config
  ctx_ampUrlPrefix :: jsval
  ctx_lts :: jsval

text \<open>
  The body up to its first \<open>await\<close>: the call of the version source with
  \<open>{ampUrlPrefix, lts}\<close>.
\<close>

definition fetchLatestRuntimeData_call :: "call_context \<Rightarrow> jsval prog" where
  "fetchLatestRuntimeData_call context =
     config_currentVersion (Config (ctx_config context))
       [JObj [(''ampUrlPrefix'', ctx_ampUrlPrefix context), (''lts'', ctx_lts context)]]"

text \<open>The body after the \<open>await\<close>, once the version source has answered \<open>version\<close>.\<close>

definition fetchLatestRuntimeData_rest :: "string \<Rightarrow> jsval \<Rightarrow> jsval prog" where
  "fetchLatestRuntimeData_rest versionKey version = (\<lambda>w.
     let ampRuntimeData =
           JObj [(''version'', version), (''maxAge'', MaxAge_create (clock w) AMP_RUNTIME_MAX_AGE)]
     in
     bindP (console_log [JStr ''set version'', JStr versionKey, ampRuntimeData]) (\<lambda>_.
     bindP (cache_set versionKey ampRuntimeData) (\<lambda>_.
     returnP ampRuntimeData)) w)"

text \<open>\<open>await fetchLatestRuntimeData_(versionKey, context)\<close>\<close>

definition fetchLatestRuntimeData :: "string \<Rightarrow> call_context \<Rightarrow> jsval prog" where
  "fetchLatestRuntimeData versionKey context =
     bindP (fetchLatestRuntimeData_call context) (fetchLatestRuntimeData_rest versionKey)"

text \<open>
  \<open>fetchLatestRuntimeData_(versionKey, context)\<close> without \<open>await\<close> (line 131): the
  version source is called, the caller goes on at once, and the rest of the body is
  left pending with the outcome it waits for.
\<close>

definition fetchLatestRuntimeData_unawaited :: "string \<Rightarrow> call_context \<Rightarrow> unit prog" where
  "fetchLatestRuntimeData_unawaited versionKey context = (\<lambda>w.
     case fetchLatestRuntimeData_call context w of
       (r, w') \<Rightarrow> (Inr (), w'\<lparr>pending := pending w' @ [Refresh versionKey r]\<rparr>))"

text \<open>
  A pending task run to its end, some time after the caller has returned: a rejected
  version-source call ends the task with that error, which nobody awaits.
\<close>

fun run_task :: "bg_task \<Rightarrow> jsval prog" where
  "run_task (Refresh versionKey r) = bindP (liftE r) (fetchLatestRuntimeData_rest versionKey)"

subsection \<open>\<open>fetchAmpRuntimeVersion_\<close>\<close>

definition fetchAmpRuntimeVersion :: "call_context \<Rightarrow> jsval prog" where
  "fetchAmpRuntimeVersion context =
     (let versionKey = to_string (ctx_ampUrlPrefix context) @ ''-'' @ to_string (ctx_lts context)
      in
      bindP (cache_get versionKey) (\<lambda>cached.
      bindP
        (if \<not> truthy cached then fetchLatestRuntimeData versionKey context
         else
           bindP (liftE (get_prop cached ''maxAge'')) (\<lambda>maxAge.
           bindP (\<lambda>w. (MaxAge_isExpired maxAge (clock w), w)) (\<lambda>expired.
           bindP (if expired then fetchLatestRuntimeData_unawaited versionKey context
                  else returnP ()) (\<lambda>_.
           returnP cached))))
        (\<lambda>ampRuntimeData. liftE (get_prop ampRuntimeData ''version''))))"

subsection \<open>\<open>fetchValidatorRules_\<close>\<close>

definition fetchValidatorRules :: "env \<Rightarrow> jsval prog" where
  "fetchValidatorRules env =
     bindP (cache_get ''validator-rules'') (\<lambda>rawRules.
       if \<not> truthy rawRules then
         bindP (validatorRulesProvider env []) (\<lambda>validatorRules.
         bindP (liftE (get_prop validatorRules ''raw'')) (\<lambda>raw.
         bindP (cache_set KEY_VALIDATOR_RULES raw) (\<lambda>_.
         returnP validatorRules)))
       else validatorRulesProvider env [JObj [(''rules'', rawRules)]])"

subsection \<open>The parameter objects\<close>

text \<open>
  \<open>customRuntimeParameters\<close> and the object that \<open>fetchRuntimeParameters\<close> returns are
  references into the heap (the JSDoc types both parameters of the function as
  \<open>Object\<close>). The operations raise on a reference that points outside the heap.
\<close>

definition obj_at :: "world \<Rightarrow> nat \<Rightarrow> obj option" where
  "obj_at w a = (if a < length (heap w) then Some (heap w ! a) else None)"

text \<open>\<open>Object.assign({}, source)\<close>: a new object with the own properties of \<open>source\<close>.\<close>

definition Object_assign_new :: "nat \<Rightarrow> nat prog" where
  "Object_assign_new source = (\<lambda>w.
     (Inr (length (heap w)),
      w\<lparr>heap := heap w @ [case obj_at w source of None \<Rightarrow> [] | Some ps \<Rightarrow> ps]\<rparr>))"

definition read_field :: "nat \<Rightarrow> string \<Rightarrow> jsval prog" where
  "read_field a k = (\<lambda>w.
     case obj_at w a of None \<Rightarrow> (Inl TypeError, w) | Some ps \<Rightarrow> (Inr (lookup ps k), w))"

definition write_field :: "nat \<Rightarrow> string \<Rightarrow> jsval \<Rightarrow> unit prog" where
  "write_field a k v = (\<lambda>w.
     case obj_at w a of
       None \<Rightarrow> (Inl TypeError, w)
     | Some ps \<Rightarrow> (Inr (), w\<lparr>heap := (heap w)[a := AList.update k v ps]\<rparr>))"

subsection \<open>\<open>fetchRuntimeParameters\<close>\<close>

text \<open>Lines 52 to 56: the validator rules.\<close>

definition try_validatorRules :: "env \<Rightarrow> config \<Rightarrow> nat \<Rightarrow> unit prog" where
  "try_validatorRules env config runtimeParameters =
     tryP
       (bindP (if truthy (lookup (props config) ''validatorRules'')
               then returnP (lookup (props config) ''validatorRules'')
               else fetchValidatorRules env) (\<lambda>v.
        write_field runtimeParameters ''validatorRules'' v))
       (\<lambda>error. config_log_error (Config config) ''Could not fetch validator rules'' (Some error))"

text \<open>Lines 59 to 64: the runtime version.\<close>

definition try_ampRuntimeVersion ::
  "config \<Rightarrow> nat \<Rightarrow> jsval \<Rightarrow> jsval \<Rightarrow> jsval \<Rightarrow> unit prog" where
  "try_ampRuntimeVersion config runtimeParameters ampUrlPrefix ampRuntimeVersion lts =
     tryP
       (bindP (if truthy ampRuntimeVersion then returnP ampRuntimeVersion
               else fetchAmpRuntimeVersion
                      \<lparr>ctx_config = config, ctx_ampUrlPrefix = ampUrlPrefix, ctx_lts = lts\<rparr>) (\<lambda>v.
        write_field runtimeParameters ''ampRuntimeVersion'' v))
       (\<lambda>error. config_log_error (Config config)
                  ''Could not fetch latest AMP runtime version'' (Some error))"

text \<open>Lines 66 to 72: the runtime styles.\<close>

definition try_ampRuntimeStyles ::
  "env \<Rightarrow> config \<Rightarrow> nat \<Rightarrow> jsval \<Rightarrow> jsval \<Rightarrow> unit prog" where
  "try_ampRuntimeStyles env config runtimeParameters ampUrlPrefix ampRuntimeStyles =
     tryP
       (bindP (if truthy ampRuntimeStyles then returnP ampRuntimeStyles
               else
                 bindP (read_field runtimeParameters ''ampRuntimeVersion'') (\<lambda>version.
                 fetchAmpRuntimeStyles env (Config config) ampUrlPrefix version)) (\<lambda>v.
        write_field runtimeParameters ''ampRuntimeStyles'' v))
       (\<lambda>error. config_log_error (Config config) ''Could not fetch AMP runtime CSS'' (Some error))"

definition fetchRuntimeParameters :: "env \<Rightarrow> config \<Rightarrow> nat \<Rightarrow> nat prog" where
  "fetchRuntimeParameters env config customRuntimeParameters =
     bindP (Object_assign_new customRuntimeParameters) (\<lambda>runtimeParameters.
     bindP (read_field customRuntimeParameters ''verbose'') (\<lambda>verbose.
     bindP (write_field runtimeParameters ''verbose''
              (js_or (js_or verbose (lookup (props config) ''verbose'')) (JBool False))) (\<lambda>_.
     bindP (read_field customRuntimeParameters ''lts'') (\<lambda>lts.
     bindP (write_field runtimeParameters ''lts''
              (js_or (js_or lts (lookup (props config) ''lts'')) (JBool False))) (\<lambda>_.
     bindP (read_field customRuntimeParameters ''rtv'') (\<lambda>rtv.
     bindP (write_field runtimeParameters ''rtv''
              (js_or (js_or rtv (lookup (props config) ''rtv'')) (JBool False))) (\<lambda>_.
     bindP (try_validatorRules env config runtimeParameters) (\<lambda>_.
     bindP (read_field runtimeParameters ''ampUrlPrefix'') (\<lambda>ampUrlPrefix.
     bindP (read_field runtimeParameters ''ampRuntimeVersion'') (\<lambda>ampRuntimeVersion.
     bindP (read_field runtimeParameters ''ampRuntimeStyles'') (\<lambda>ampRuntimeStyles.
     bindP (read_field runtimeParameters ''lts'') (\<lambda>lts.
     bindP (try_ampRuntimeVersion config runtimeParameters ampUrlPrefix ampRuntimeVersion lts) (\<lambda>_.
     bindP (try_ampRuntimeStyles env config runtimeParameters ampUrlPrefix ampRuntimeStyles) (\<lambda>_.
     returnP runtimeParameters))))))))))))))"

section \<open>Derived notions used in the statements\<close>

text \<open>The cache key of line 125: \<open>context.ampUrlPrefix + '-' + context.lts\<close>.\<close>

definition versionKey :: "jsval \<Rightarrow> jsval \<Rightarrow> string" where
  "versionKey ampUrlPrefix lts = to_string ampUrlPrefix @ ''-'' @ to_string lts"

text \<open>The argument list of line 141: \<open>currentVersion({ampUrlPrefix, lts})\<close>.\<close>

definition version_args :: "jsval \<Rightarrow> jsval \<Rightarrow> jsval list" where
  "version_args ampUrlPrefix lts = [JObj [(''ampUrlPrefix'', ampUrlPrefix), (''lts'', lts)]]"

text \<open>The record that line 140 builds at time \<open>now\<close>.\<close>

definition version_record :: "jsval \<Rightarrow> int \<Rightarrow> jsval" where
  "version_record version now =
     JObj [(''version'', version), (''maxAge'', MaxAge_create now AMP_RUNTIME_MAX_AGE)]"

text \<open>The download URL of line 89.\<close>

definition styles_url :: "env \<Rightarrow> jsval \<Rightarrow> jsval \<Rightarrow> string" where
  "styles_url env ampUrlPrefix ampRuntimeVersion =
     appendRuntimeVersion env (js_or ampUrlPrefix (JStr (AMP_CACHE_HOST env))) ampRuntimeVersion
       @ AMP_RUNTIME_CSS_PATH env"


text \<open>A property of an object in the heap.\<close>

definition field :: "world \<Rightarrow> nat \<Rightarrow> string \<Rightarrow> jsval" where
  "field w a k = lookup (heap w ! a) k"

text \<open>
  The new object after lines 45 to 50: the copy of \<open>customRuntimeParameters\<close> with
  \<open>verbose\<close>, \<open>lts\<close> and \<open>rtv\<close> assigned; and the world at that point.
\<close>

definition flags_object :: "config \<Rightarrow> obj \<Rightarrow> obj" where
  "flags_object config custom =
     AList.update ''rtv''
       (js_or (js_or (lookup custom ''rtv'') (lookup (props config) ''rtv'')) (JBool False))
       (AList.update ''lts''
          (js_or (js_or (lookup custom ''lts'') (lookup (props config) ''lts'')) (JBool False))
          (AList.update ''verbose''
             (js_or (js_or (lookup custom ''verbose'') (lookup (props config) ''verbose''))
                (JBool False))
             custom))"

definition after_flags :: "config \<Rightarrow> nat \<Rightarrow> world \<Rightarrow> world" where
  "after_flags config custom w = w\<lparr>heap := heap w @ [flags_object config (heap w ! custom)]\<rparr>"

text \<open>A program that leaves every object of the heap as it is.\<close>

definition heap_kept :: "'a prog \<Rightarrow> bool" where
  "heap_kept m = (\<forall>w. heap (snd (m w)) = heap w)"

subsection \<open>Concrete collaborators\<close>

text \<open>
  An environment with the constants that the comment of line 88 describes
  (\<open>https://cdn.ampproject.org/rtv/${ampRuntimeVersion}/v0.css\<close>), a rule provider
  that always answers, and a URL parser that accepts what starts with \<open>https://\<close>.
\<close>

definition example_env :: env where
  "example_env =
     \<lparr>AMP_CACHE_HOST = ''https://cdn.ampproject.org'',
      AMP_RUNTIME_CSS_PATH = ''/v0.css'',
      appendRuntimeVersion = (\<lambda>prefix version. to_string prefix @ ''/rtv/'' @ to_string version),
      validatorRulesProvider_fetch = (\<lambda>args. Inr (JObj [(''raw'', JStr ''rules'')])),
      url_parses = (\<lambda>s. take 8 s = ''https://'')\<rparr>"

text \<open>An empty cache, and a heap whose only object is \<open>{}\<close> at reference 0.\<close>

definition example_world :: world where
  "example_world =
     \<lparr>heap = [[]], cache_store = Map.empty, cache_get_error = Map.empty, clock = 1000,
      logged = [], fetch_calls = [], version_calls = [], rules_calls = [], pending = []\<rparr>"

text \<open>The rules are in the cache.\<close>

definition warm_rules_world :: world where
  "warm_rules_world = example_world\<lparr>cache_store := [''validator-rules'' \<mapsto> JStr ''rules'']\<rparr>"

text \<open>A version record written at time 0 is in the cache; the clock shows 1000.\<close>

definition stale_world :: world where
  "stale_world = example_world\<lparr>cache_store := [''-false'' \<mapsto> version_record (JStr ''1'') 0]\<rparr>"

text \<open>A cache whose every read rejects.\<close>

definition unreadable_world :: world where
  "unreadable_world = example_world\<lparr>cache_get_error := (\<lambda>key. Some (Failure ''cache''))\<rparr>"

text \<open>Every download fails; the current version is 2.\<close>

definition offline_config :: config where
  "offline_config =
     \<lparr>props = [],
      fetch = (\<lambda>url. Inr \<lparr>resp_ok = False, resp_text = Inr ''''\<rparr>),
      currentVersion = (\<lambda>args. Inr (JStr ''2''))\<rparr>"

text \<open>Only the canonical host serves the styles of the current version 2.\<close>

definition mirror_down_config :: config where
  "mirror_down_config =
     \<lparr>props = [],
      fetch = (\<lambda>url. if url = ''https://cdn.ampproject.org/rtv/2/v0.css''
                     then Inr \<lparr>resp_ok = True, resp_text = Inr ''html{}''\<rparr>
                     else Inr \<lparr>resp_ok = False, resp_text = Inr ''''\<rparr>),
      currentVersion = (\<lambda>args. Inr (JStr ''2''))\<rparr>"

text \<open>Every download succeeds with an empty body.\<close>

definition empty_body_config :: config where
  "empty_body_config =
     \<lparr>props = [],
      fetch = (\<lambda>url. Inr \<lparr>resp_ok = True, resp_text = Inr ''''\<rparr>),
      currentVersion = (\<lambda>args. Inr (JStr ''2''))\<rparr>"

text \<open>Every download succeeds; the config carries \<open>ampRuntimeVersion: '1'\<close>.\<close>

definition versioned_config :: config where
  "versioned_config =
     \<lparr>props = [(''ampRuntimeVersion'', JStr ''1'')],
      fetch = (\<lambda>url. Inr \<lparr>resp_ok = True, resp_text = Inr ''html{}''\<rparr>),
      currentVersion = (\<lambda>args. Inr (JStr ''2''))\<rparr>"

text \<open>The caller's object is \<open>{ampRuntimeVersion: '7'}\<close>.\<close>

definition pinned_world :: world where
  "pinned_world = example_world\<lparr>heap := [[(''ampRuntimeVersion'', JStr ''7'')]]\<rparr>"

section \<open>Basic facts\<close>

lemmas prog_defs = bindP_def returnP_def throwP_def tryP_def liftE_def cache_get_def cache_set_def
  config_log_warn_def config_log_error_def config_fetch_def config_currentVersion_def
  validatorRulesProvider_def console_log_def cache_value_def

lemmas version_defs = fetchAmpRuntimeVersion_def fetchLatestRuntimeData_def
  fetchLatestRuntimeData_call_def fetchLatestRuntimeData_rest_def
  fetchLatestRuntimeData_unawaited_def versionKey_def version_args_def version_record_def

lemmas example_defs = example_env_def example_world_def warm_rules_world_def stale_world_def
  unreadable_world_def offline_config_def mirror_down_config_def empty_body_config_def
  versioned_config_def pinned_world_def

lemma lookup_update: "lookup (AList.update k v ps) k' = (if k' = k then v else lookup ps k')"
  by (simp add: lookup_def update_conv')

subsection \<open>The style resolver, by the kind of its \<open>config\<close> argument\<close>

lemma download_Prim:
  "downloadAmpRuntimeStyles (Prim p) url =
     bindP (cache_get url) (\<lambda>styles. if truthy styles then returnP styles else throwP TypeError)"
  by (auto simp: downloadAmpRuntimeStyles_def prog_defs fun_eq_iff split: option.splits)

text \<open>
  With something else than a config object in \<open>config\<close>, the resolver can only hand
  out what the cache holds: every use of a capability raises.
\<close>

lemma fetchStyles_Prim:
  "fetchAmpRuntimeStyles env (Prim p) ampUrlPrefix ampRuntimeVersion =
     (if truthy ampUrlPrefix \<and> \<not> isAbsoluteUrl env ampUrlPrefix then throwP TypeError
      else bindP (cache_get (styles_url env ampUrlPrefix ampRuntimeVersion))
             (\<lambda>styles. if truthy styles then returnP styles else throwP TypeError))"
  apply (subst fetchAmpRuntimeStyles.simps)
  apply (rule ext)
  apply (simp add: download_Prim styles_url_def prog_defs Let_def
      split: option.splits sum.splits prod.splits)
  done

lemmas fetchStyles_Config = fetchAmpRuntimeStyles.simps [where config = "Config c" for c]

section \<open>The validator rules\<close>

text \<open>
  Claim C9. \<open>fetchValidatorRules_\<close> works on the one cache key \<open>validator-rules\<close> and
  never looks at the clock. When the cache yields nothing for that key (a miss), the
  rule provider is called with no arguments, the \<open>raw\<close> property of the rule set it
  answers is stored under the key, and the rule set itself is returned. When the cache
  yields raw rules (a hit), the rule provider is called with \<open>{rules: raw}\<close> and its
  answer is returned; nothing is stored. In both cases the rest of the world, the
  other cache entries included, stays as it was.
\<close>

theorem fetchValidatorRules_cache_protocol:
  assumes "cache_get_error w ''validator-rules'' = None"
  shows "(\<not> truthy (cache_value w ''validator-rules'') \<longrightarrow>
            validatorRulesProvider_fetch env [] = Inr (JObj rs) \<longrightarrow>
            fetchValidatorRules env w =
              (Inr (JObj rs),
               w\<lparr>rules_calls := rules_calls w @ [[]],
                 cache_store := (cache_store w)(''validator-rules'' \<mapsto> lookup rs ''raw'')\<rparr>))
       \<and> (truthy (cache_value w ''validator-rules'') \<longrightarrow>
            fetchValidatorRules env w =
              (validatorRulesProvider_fetch env [JObj [(''rules'', cache_value w ''validator-rules'')]],
               w\<lparr>rules_calls := rules_calls w @
                   [[JObj [(''rules'', cache_value w ''validator-rules'')]]]\<rparr>))"
  using assms
  by (auto simp: fetchValidatorRules_def prog_defs KEY_VALIDATOR_RULES_def)

theorem fetchValidatorRules_cache_protocol_witness:
  "cache_get_error example_world ''validator-rules'' = None
   \<and> \<not> truthy (cache_value example_world ''validator-rules'')
   \<and> fetchValidatorRules example_env example_world =
       (Inr (JObj [(''raw'', JStr ''rules'')]),
        example_world\<lparr>rules_calls := [[]],
          cache_store := [''validator-rules'' \<mapsto> JStr ''rules'']\<rparr>)
   \<and> cache_get_error warm_rules_world ''validator-rules'' = None
   \<and> truthy (cache_value warm_rules_world ''validator-rules'')
   \<and> fetchValidatorRules example_env warm_rules_world =
       (Inr (JObj [(''raw'', JStr ''rules'')]),
        warm_rules_world\<lparr>rules_calls := [[JObj [(''rules'', JStr ''rules'')]]]\<rparr>)"
  using fetchValidatorRules_cache_protocol
          [of example_world example_env "[(''raw'', JStr ''rules'')]"]
        fetchValidatorRules_cache_protocol [of warm_rules_world example_env]
  by (simp add: example_defs cache_value_def lookup_def)

section \<open>The runtime version\<close>

text \<open>
  Claim C5. On a cache miss for the key \<open>ampUrlPrefix + '-' + lts\<close>, with a version
  source that answers \<open>v\<close>, \<open>fetchAmpRuntimeVersion_\<close> calls the version source exactly
  once (with \<open>{ampUrlPrefix, lts}\<close>), stores under that key the record
  \<open>{version: v, maxAge}\<close> whose stamp is created now with a duration of 600 seconds, so
  that it is expired exactly at the times later than now + 600, and returns \<open>v\<close>.
\<close>

theorem fetchAmpRuntimeVersion_miss:
  assumes "cache_get_error w (versionKey p l) = None"
    and "\<not> truthy (cache_value w (versionKey p l))"
    and "currentVersion c (version_args p l) = Inr v"
  shows "fetchAmpRuntimeVersion \<lparr>ctx_config = c, ctx_ampUrlPrefix = p, ctx_lts = l\<rparr> w =
           (Inr v,
            w\<lparr>version_calls := version_calls w @ [version_args p l],
              logged := logged w @
                [ConsoleLog [JStr ''set version'', JStr (versionKey p l),
                   JObj [(''version'', v), (''maxAge'', MaxAge_create (clock w) 600)]]],
              cache_store := (cache_store w)(versionKey p l \<mapsto>
                   JObj [(''version'', v), (''maxAge'', MaxAge_create (clock w) 600)])\<rparr>)
         \<and> MaxAge_isExpired (MaxAge_create (clock w) 600) t = Inr (t > clock w + 600)"
  using assms
  by (simp add: version_defs prog_defs Let_def lookup_def MaxAge_create_def AMP_RUNTIME_MAX_AGE_def)

theorem fetchAmpRuntimeVersion_miss_witness:
  "cache_get_error example_world (versionKey (JStr '''') (JBool False)) = None
   \<and> \<not> truthy (cache_value example_world (versionKey (JStr '''') (JBool False)))
   \<and> currentVersion offline_config (version_args (JStr '''') (JBool False)) = Inr (JStr ''2'')
   \<and> fst (fetchAmpRuntimeVersion
        \<lparr>ctx_config = offline_config, ctx_ampUrlPrefix = JStr '''', ctx_lts = JBool False\<rparr>
        example_world) = Inr (JStr ''2'')
   \<and> cache_store (snd (fetchAmpRuntimeVersion
        \<lparr>ctx_config = offline_config, ctx_ampUrlPrefix = JStr '''', ctx_lts = JBool False\<rparr>
        example_world)) ''-false''
      = Some (JObj [(''version'', JStr ''2''), (''maxAge'', MaxAge_create 1000 600)])
   \<and> version_calls (snd (fetchAmpRuntimeVersion
        \<lparr>ctx_config = offline_config, ctx_ampUrlPrefix = JStr '''', ctx_lts = JBool False\<rparr>
        example_world)) = [version_args (JStr '''') (JBool False)]
   \<and> MaxAge_isExpired (MaxAge_create 1000 600) 1601 = Inr True
   \<and> MaxAge_isExpired (MaxAge_create 1000 600) 1600 = Inr False"
  using fetchAmpRuntimeVersion_miss
          [of example_world "JStr ''''" "JBool False" offline_config "JStr ''2''" 1601]
        fetchAmpRuntimeVersion_miss
          [of example_world "JStr ''''" "JBool False" offline_config "JStr ''2''" 1600]
  by (simp add: example_defs cache_value_def versionKey_def version_args_def)

text \<open>
  Claim C4. On a stale hit (the cache holds a record for the key whose stamp was
  created at \<open>createdAt\<close> with duration \<open>d\<close>, and now is later than \<open>createdAt + d\<close>),
  \<open>fetchAmpRuntimeVersion_\<close> returns the version of the cached record, whatever the
  version source answers. It calls the version source exactly once and leaves exactly
  one refresh pending, which it does not wait for: at the return the cache is as it
  was. Run later, the pending refresh stores a new record under the key if the version
  source answered; if the version source failed, the refresh ends with that failure
  and changes nothing.
\<close>

theorem fetchAmpRuntimeVersion_stale:
  assumes "cache_get_error w (versionKey p l) = None"
    and "cache_store w (versionKey p l) = Some (JObj record)"
    and "lookup record ''maxAge'' = MaxAge_create createdAt d"
    and "clock w > createdAt + d"
  shows "fetchAmpRuntimeVersion \<lparr>ctx_config = c, ctx_ampUrlPrefix = p, ctx_lts = l\<rparr> w =
           (Inr (lookup record ''version''),
            w\<lparr>version_calls := version_calls w @ [version_args p l],
              pending := pending w @
                [Refresh (versionKey p l) (currentVersion c (version_args p l))]\<rparr>)
         \<and> run_task (Refresh (versionKey p l) (Inl e)) w' = (Inl e, w')
         \<and> run_task (Refresh (versionKey p l) (Inr v)) w' =
             (Inr (version_record v (clock w')),
              w'\<lparr>logged := logged w' @
                  [ConsoleLog [JStr ''set version'', JStr (versionKey p l),
                     version_record v (clock w')]],
                cache_store := (cache_store w')(versionKey p l \<mapsto> version_record v (clock w'))\<rparr>)"
  using assms
  by (simp add: version_defs prog_defs Let_def lookup_def MaxAge_create_def)

theorem fetchAmpRuntimeVersion_stale_witness:
  "cache_get_error stale_world (versionKey (JStr '''') (JBool False)) = None
   \<and> cache_store stale_world (versionKey (JStr '''') (JBool False))
       = Some (JObj [(''version'', JStr ''1''), (''maxAge'', MaxAge_create 0 600)])
   \<and> clock stale_world > 0 + 600
   \<and> fetchAmpRuntimeVersion
        \<lparr>ctx_config = offline_config, ctx_ampUrlPrefix = JStr '''', ctx_lts = JBool False\<rparr>
        stale_world =
       (Inr (JStr ''1''),
        stale_world\<lparr>version_calls := [version_args (JStr '''') (JBool False)],
          pending := [Refresh ''-false'' (Inr (JStr ''2''))]\<rparr>)"
  using fetchAmpRuntimeVersion_stale
          [of stale_world "JStr ''''" "JBool False"
              "[(''version'', JStr ''1''), (''maxAge'', MaxAge_create 0 600)]" 0 600 offline_config]
  by (simp add: example_defs versionKey_def version_args_def version_record_def lookup_def
      AMP_RUNTIME_MAX_AGE_def)

section \<open>Cache read failures\<close>




section \<open>The runtime styles\<close>



text \<open>
  Claim C2 describes a retry against the canonical host whose result is returned. The
  code of line 97 does not do that: the retry is called without the config, so that
  the host string is taken for the config and the version for the prefix, and the
  retry raises as soon as it needs a capability. Here the mirror \<open>https://example.com\<close>
  answers non-ok and the canonical host would serve \<open>html{}\<close> for the current version
  2: the call makes one download attempt, logs it, asks for the current version, and
  rejects with a \<open>TypeError\<close>; the canonical host is never asked.
\<close>

theorem retry_is_called_without_config:
  "fetchAmpRuntimeStyles example_env (Config mirror_down_config)
     (JStr ''https://example.com'') (JStr ''1'') example_world
   = (Inl TypeError,
      example_world
        \<lparr>fetch_calls := [''https://example.com/rtv/1/v0.css''],
          logged := [LogError ''Could not download https://example.com/rtv/1/v0.css'' None],
          version_calls := [[]]\<rparr>)"
  by (simp add: fetchStyles_Config fetchStyles_Prim downloadAmpRuntimeStyles_def styles_url_def
      isAbsoluteUrl_def js_or_def prog_defs example_defs Let_def)

text \<open>
  Claim C3, as the claim states it, fails: a successful download with an empty body
  is cached, but it is not returned without the fallback. With a fetch that answers
  ok and an empty body, the call for version 1 stores the empty string in the cache,
  then logs the fallback's error and does not return the empty string.
\<close>

theorem empty_body_enters_fallback:
  "fst (fetchAmpRuntimeStyles example_env (Config empty_body_config) Undefined (JStr ''1'')
          example_world) \<noteq> Inr (JStr '''')
   \<and> logged (snd (fetchAmpRuntimeStyles example_env (Config empty_body_config) Undefined
          (JStr ''1'') example_world))
       = [LogError ''Could not download https://cdn.ampproject.org/rtv/1/v0.css'' None]
   \<and> cache_store (snd (fetchAmpRuntimeStyles example_env (Config empty_body_config) Undefined
          (JStr ''1'') example_world)) ''https://cdn.ampproject.org/rtv/1/v0.css''
       = Some (JStr '''')"
  by (simp add: fetchStyles_Config fetchStyles_Prim downloadAmpRuntimeStyles_def styles_url_def
      isAbsoluteUrl_def js_or_def prog_defs example_defs Let_def)

text \<open>
  Claim C3, amended. With a readable cache, \<open>downloadAmpRuntimeStyles_\<close> returns \<open>null\<close>
  exactly when the cache has nothing truthy for the URL and the fetch response is
  non-ok. A successful download is written to the cache under the URL. What
  \<open>fetchAmpRuntimeStyles_\<close> tests is the falsiness of the downloaded value: a non-empty
  body is returned without any fallback, while an empty body enters the fallback step
  just as \<open>null\<close> does: the error is logged, and when neither prefix nor version was
  given the result is the empty string.
\<close>

theorem falsy_download_enters_fallback:
  "(cache_get_error w url = None \<longrightarrow>
      ((fst (downloadAmpRuntimeStyles (Config c) url w) = Inr Null) =
       (\<not> truthy (cache_value w url) \<and> (\<exists>r. fetch c url = Inr r \<and> \<not> resp_ok r))))
   \<and> (cache_get_error w (styles_url env p v) = None
        \<and> \<not> truthy (cache_value w (styles_url env p v))
        \<and> \<not> (truthy p \<and> \<not> isAbsoluteUrl env p)
        \<and> fetch c (styles_url env p v) = Inr r \<and> resp_ok r \<and> resp_text r = Inr body \<longrightarrow>
        (body \<noteq> [] \<longrightarrow>
           fetchAmpRuntimeStyles env (Config c) p v w =
             (Inr (JStr body),
              w\<lparr>fetch_calls := fetch_calls w @ [styles_url env p v],
                cache_store := (cache_store w)(styles_url env p v \<mapsto> JStr body)\<rparr>))
        \<and> (body = [] \<longrightarrow>
             logged (snd (fetchAmpRuntimeStyles env (Config c) p v w)) =
               logged w @ [LogError (''Could not download '' @ styles_url env p v) None]
             \<and> cache_store (snd (fetchAmpRuntimeStyles env (Config c) p v w)) (styles_url env p v)
                 = Some (JStr ''''))
        \<and> (body = [] \<longrightarrow> \<not> truthy p \<longrightarrow> \<not> truthy v \<longrightarrow>
             fetchAmpRuntimeStyles env (Config c) p v w =
               (Inr (JStr ''''),
                w\<lparr>fetch_calls := fetch_calls w @ [styles_url env p v],
                  cache_store := (cache_store w)(styles_url env p v \<mapsto> JStr ''''),
                  logged := logged w @
                    [LogError (''Could not download '' @ styles_url env p v) None]\<rparr>)))"
proof (intro conjI impI)
  assume "cache_get_error w url = None"
  then show "(fst (downloadAmpRuntimeStyles (Config c) url w) = Inr Null) =
       (\<not> truthy (cache_value w url) \<and> (\<exists>r. fetch c url = Inr r \<and> \<not> resp_ok r))"
    by (cases "fetch c url"; cases "truthy (cache_value w url)")
       (auto simp: downloadAmpRuntimeStyles_def prog_defs split: sum.splits)
next
  assume a: "cache_get_error w (styles_url env p v) = None
        \<and> \<not> truthy (cache_value w (styles_url env p v))
        \<and> \<not> (truthy p \<and> \<not> isAbsoluteUrl env p)
        \<and> fetch c (styles_url env p v) = Inr r \<and> resp_ok r \<and> resp_text r = Inr body"
  have d: "downloadAmpRuntimeStyles (Config c) (styles_url env p v) w =
      (Inr (JStr body),
       w\<lparr>fetch_calls := fetch_calls w @ [styles_url env p v],
         cache_store := (cache_store w)(styles_url env p v \<mapsto> JStr body)\<rparr>)"
    using a by (simp add: downloadAmpRuntimeStyles_def prog_defs)
  have u: "fetchAmpRuntimeStyles env (Config c) p v w =
      bindP (downloadAmpRuntimeStyles (Config c) (styles_url env p v)) (\<lambda>styles.
        if \<not> truthy styles then
          bindP (config_log_error (Config c) (''Could not download '' @ styles_url env p v) None)
           (\<lambda>_. if truthy p \<or> truthy v then
               bindP (config_currentVersion (Config c) []) (\<lambda>v'.
                 fetchAmpRuntimeStyles env (Prim (JStr (AMP_CACHE_HOST env))) v' Undefined)
             else returnP (JStr ''''))
        else returnP styles) w"
    using a unfolding styles_url_def
    by (subst fetchStyles_Config, cases "truthy p")
       (simp_all add: Let_def bindP_def returnP_def)
  {
    assume "body \<noteq> []"
    then show "fetchAmpRuntimeStyles env (Config c) p v w =
             (Inr (JStr body),
              w\<lparr>fetch_calls := fetch_calls w @ [styles_url env p v],
                cache_store := (cache_store w)(styles_url env p v \<mapsto> JStr body)\<rparr>)"
      unfolding u by (simp add: bindP_def d returnP_def)
  }
  {
    assume "body = []"
    then show "logged (snd (fetchAmpRuntimeStyles env (Config c) p v w)) =
               logged w @ [LogError (''Could not download '' @ styles_url env p v) None]"
      and "cache_store (snd (fetchAmpRuntimeStyles env (Config c) p v w)) (styles_url env p v)
                 = Some (JStr '''')"
      unfolding u
      by (auto simp: bindP_def d returnP_def throwP_def config_log_error_def
          config_currentVersion_def fetchStyles_Prim cache_get_def
          split: sum.splits option.splits prod.splits)
  }
  {
    assume "body = []" and "\<not> truthy p" and "\<not> truthy v"
    then show "fetchAmpRuntimeStyles env (Config c) p v w =
               (Inr (JStr ''''),
                w\<lparr>fetch_calls := fetch_calls w @ [styles_url env p v],
                  cache_store := (cache_store w)(styles_url env p v \<mapsto> JStr ''''),
                  logged := logged w @
                    [LogError (''Could not download '' @ styles_url env p v) None]\<rparr>)"
      unfolding u by (simp add: bindP_def d returnP_def config_log_error_def)
  }
qed

theorem falsy_download_enters_fallback_witness:
  "cache_get_error example_world ''https://cdn.ampproject.org/rtv/undefined/v0.css'' = None
   \<and> fst (downloadAmpRuntimeStyles (Config offline_config)
        ''https://cdn.ampproject.org/rtv/undefined/v0.css'' example_world) = Inr Null
   \<and> styles_url example_env Undefined Undefined = ''https://cdn.ampproject.org/rtv/undefined/v0.css''
   \<and> \<not> truthy (cache_value example_world (styles_url example_env Undefined Undefined))
   \<and> \<not> (truthy Undefined \<and> \<not> isAbsoluteUrl example_env Undefined)
   \<and> fetch empty_body_config (styles_url example_env Undefined Undefined)
       = Inr \<lparr>resp_ok = True, resp_text = Inr ''''\<rparr>
   \<and> fetchAmpRuntimeStyles example_env (Config empty_body_config) Undefined Undefined example_world
       = (Inr (JStr ''''),
          example_world
            \<lparr>fetch_calls := [''https://cdn.ampproject.org/rtv/undefined/v0.css''],
              cache_store := [''https://cdn.ampproject.org/rtv/undefined/v0.css'' \<mapsto> JStr ''''],
              logged := [LogError
                ''Could not download https://cdn.ampproject.org/rtv/undefined/v0.css'' None]\<rparr>)
   \<and> fetch versioned_config (styles_url example_env Undefined Undefined)
       = Inr \<lparr>resp_ok = True, resp_text = Inr ''html{}''\<rparr>
   \<and> fetchAmpRuntimeStyles example_env (Config versioned_config) Undefined Undefined example_world
       = (Inr (JStr ''html{}''),
          example_world
            \<lparr>fetch_calls := [''https://cdn.ampproject.org/rtv/undefined/v0.css''],
              cache_store :=
                [''https://cdn.ampproject.org/rtv/undefined/v0.css'' \<mapsto> JStr ''html{}'']\<rparr>)"
  using falsy_download_enters_fallback
          [where w = example_world and url = "''https://cdn.ampproject.org/rtv/undefined/v0.css''"
             and c = offline_config and env = example_env and p = Undefined and v = Undefined]
        falsy_download_enters_fallback
          [where w = example_world and c = empty_body_config and env = example_env
             and p = Undefined and v = Undefined
             and r = "\<lparr>resp_ok = True, resp_text = Inr ''''\<rparr>" and body = "''''"]
        falsy_download_enters_fallback
          [where w = example_world and c = versioned_config and env = example_env
             and p = Undefined and v = Undefined
             and r = "\<lparr>resp_ok = True, resp_text = Inr ''html{}''\<rparr>" and body = "''html{}''"]
  by (simp add: styles_url_def js_or_def isAbsoluteUrl_def cache_value_def example_defs)

section \<open>The orchestrator\<close>

subsection \<open>The resolvers never touch the heap\<close>

lemma heap_keptD: "heap_kept m \<Longrightarrow> m w = (r, w') \<Longrightarrow> heap w' = heap w"
  by (auto simp: heap_kept_def dest: spec [of _ w])

lemma heap_kept_bindP:
  "heap_kept m \<Longrightarrow> (\<And>x. heap_kept (f x)) \<Longrightarrow> heap_kept (bindP m f)"
  unfolding heap_kept_def bindP_def
  by (auto split: prod.splits sum.splits) (metis snd_conv)+

lemma heap_kept_tryP:
  "heap_kept m \<Longrightarrow> (\<And>e. heap_kept (h e)) \<Longrightarrow> heap_kept (tryP m h)"
  unfolding heap_kept_def tryP_def
  by (auto split: prod.splits sum.splits) (metis snd_conv)+

lemma heap_kept_if:
  "heap_kept m \<Longrightarrow> heap_kept m' \<Longrightarrow> heap_kept (if b then m else m')"
  by simp

lemma heap_kept_case_prod: "(\<And>a b. heap_kept (f a b)) \<Longrightarrow> heap_kept (case_prod f p)"
  by (cases p) simp

lemma heap_kept_prims:
  "heap_kept (returnP x)" "heap_kept (throwP e)" "heap_kept (liftE r)"
  "heap_kept (cache_get key)" "heap_kept (cache_set key v)"
  "heap_kept (config_log_warn c msg)" "heap_kept (config_log_error c msg eo)"
  "heap_kept (config_fetch c url)" "heap_kept (config_currentVersion c args)"
  "heap_kept (validatorRulesProvider env args)" "heap_kept (console_log args)"
  "heap_kept (read_field a k)"
  by (auto simp: heap_kept_def prog_defs read_field_def split: option.splits cfg.splits)

lemmas heap_kept_intros = heap_kept_bindP heap_kept_tryP heap_kept_if heap_kept_case_prod
  heap_kept_prims

lemma heap_kept_download: "heap_kept (downloadAmpRuntimeStyles c url)"
  unfolding downloadAmpRuntimeStyles_def by (intro heap_kept_intros)

lemma heap_kept_fetchStyles_Prim: "heap_kept (fetchAmpRuntimeStyles env (Prim p) a b)"
  unfolding fetchStyles_Prim by (intro heap_kept_intros)

lemma heap_kept_fetchStyles: "heap_kept (fetchAmpRuntimeStyles env c a b)"
proof (cases c)
  case (Config cf)
  show ?thesis
    unfolding Config fetchStyles_Config Let_def
    by (intro heap_kept_intros heap_kept_download heap_kept_fetchStyles_Prim)
next
  case (Prim p)
  then show ?thesis by (simp add: heap_kept_fetchStyles_Prim)
qed

lemma heap_kept_rules: "heap_kept (fetchValidatorRules env)"
  unfolding fetchValidatorRules_def by (intro heap_kept_intros)

lemma heap_kept_rest: "heap_kept (fetchLatestRuntimeData_rest key v)"
  by (simp add: heap_kept_def fetchLatestRuntimeData_rest_def prog_defs Let_def)

lemma heap_kept_unawaited: "heap_kept (fetchLatestRuntimeData_unawaited key ctx)"
  by (simp add: heap_kept_def fetchLatestRuntimeData_unawaited_def
      fetchLatestRuntimeData_call_def prog_defs split: prod.splits)

lemma heap_kept_version: "heap_kept (fetchAmpRuntimeVersion ctx)"
  unfolding fetchAmpRuntimeVersion_def fetchLatestRuntimeData_def fetchLatestRuntimeData_call_def
    Let_def
  by (intro heap_kept_intros heap_kept_rest heap_kept_unawaited) (simp add: heap_kept_def)

subsection \<open>A \<open>try\<close> block that assigns one property\<close>

lemma try_write_fails:
  assumes "m w = (Inl e, w')"
  shows "tryP (bindP m (write_field rp k)) (\<lambda>e. config_log_error (Config c) msg (Some e)) w =
           (Inr (), w'\<lparr>logged := logged w' @ [LogError msg (Some e)]\<rparr>)"
  using assms by (simp add: tryP_def bindP_def config_log_error_def)

lemma try_write_succeeds:
  assumes "m w = (Inr v, w')" and "rp < length (heap w')"
  shows "tryP (bindP m (write_field rp k)) (\<lambda>e. config_log_error (Config c) msg (Some e)) w =
           (Inr (), w'\<lparr>heap := (heap w')[rp := AList.update k v (heap w' ! rp)]\<rparr>)"
  using assms by (simp add: tryP_def bindP_def write_field_def obj_at_def)

lemma try_write_total:
  assumes "heap_kept m" and "rp < length (heap w)"
  shows "\<exists>w' ob. tryP (bindP m (write_field rp k))
                    (\<lambda>e. config_log_error (Config c) msg (Some e)) w = (Inr (), w')
           \<and> heap w' = (heap w)[rp := ob]
           \<and> (\<forall>k'. k' \<noteq> k \<longrightarrow> lookup ob k' = lookup (heap w ! rp) k')"
proof (cases "m w")
  case (Pair r w')
  have h: "heap w' = heap w" using assms(1) Pair by (rule heap_keptD)
  show ?thesis
  proof (cases r)
    case (Inl e)
    have "heap w = (heap w)[rp := heap w ! rp]" by simp
    with try_write_fails [of m w e w' rp k c msg] Pair Inl h show ?thesis
      by (intro exI [of _ "w'\<lparr>logged := logged w' @ [LogError msg (Some e)]\<rparr>"]
          exI [of _ "heap w ! rp"]) simp
  next
    case (Inr v)
    with try_write_succeeds [of m w v w' rp k c msg] Pair h assms(2) show ?thesis
      by (intro exI [of _ "w'\<lparr>heap := (heap w')[rp := AList.update k v (heap w' ! rp)]\<rparr>"]
          exI [of _ "AList.update k v (heap w ! rp)"]) (simp add: lookup_update)
  qed
qed

lemma try_validatorRules_total:
  assumes "rp < length (heap w)"
  shows "\<exists>w' ob. try_validatorRules env config rp w = (Inr (), w')
           \<and> heap w' = (heap w)[rp := ob]
           \<and> (\<forall>k'. k' \<noteq> ''validatorRules'' \<longrightarrow> lookup ob k' = lookup (heap w ! rp) k')"
  unfolding try_validatorRules_def
  by (rule try_write_total [OF _ assms]) (intro heap_kept_intros heap_kept_rules)

lemma try_ampRuntimeVersion_total:
  assumes "rp < length (heap w)"
  shows "\<exists>w' ob. try_ampRuntimeVersion config rp p v l w = (Inr (), w')
           \<and> heap w' = (heap w)[rp := ob]
           \<and> (\<forall>k'. k' \<noteq> ''ampRuntimeVersion'' \<longrightarrow> lookup ob k' = lookup (heap w ! rp) k')"
  unfolding try_ampRuntimeVersion_def
  by (rule try_write_total [OF _ assms]) (intro heap_kept_intros heap_kept_version)

lemma try_ampRuntimeStyles_total:
  assumes "rp < length (heap w)"
  shows "\<exists>w' ob. try_ampRuntimeStyles env config rp p s w = (Inr (), w')
           \<and> heap w' = (heap w)[rp := ob]
           \<and> (\<forall>k'. k' \<noteq> ''ampRuntimeStyles'' \<longrightarrow> lookup ob k' = lookup (heap w ! rp) k')"
  unfolding try_ampRuntimeStyles_def
  by (rule try_write_total [OF _ assms]) (intro heap_kept_intros heap_kept_fetchStyles)

subsection \<open>One run of \<open>fetchRuntimeParameters\<close>\<close>

lemma fetchRuntimeParameters_init:
  assumes "custom < length (heap w)"
  shows "fetchRuntimeParameters env config custom w =
      bindP (try_validatorRules env config (length (heap w))) (\<lambda>_.
      bindP (read_field (length (heap w)) ''ampUrlPrefix'') (\<lambda>ampUrlPrefix.
      bindP (read_field (length (heap w)) ''ampRuntimeVersion'') (\<lambda>ampRuntimeVersion.
      bindP (read_field (length (heap w)) ''ampRuntimeStyles'') (\<lambda>ampRuntimeStyles.
      bindP (read_field (length (heap w)) ''lts'') (\<lambda>lts.
      bindP (try_ampRuntimeVersion config (length (heap w)) ampUrlPrefix ampRuntimeVersion lts) (\<lambda>_.
      bindP (try_ampRuntimeStyles env config (length (heap w)) ampUrlPrefix ampRuntimeStyles) (\<lambda>_.
      returnP (length (heap w))))))))) (after_flags config custom w)"
  using assms
  by (simp add: fetchRuntimeParameters_def bindP_def Object_assign_new_def read_field_def
      write_field_def obj_at_def nth_append after_flags_def flags_object_def)

lemma fetchRuntimeParameters_run:
  assumes "custom < length (heap w)"
  shows "\<exists>w1 w2 w3 o1 o2 o3.
           try_validatorRules env config (length (heap w)) (after_flags config custom w) = (Inr (), w1)
         \<and> try_ampRuntimeVersion config (length (heap w))
             (field w1 (length (heap w)) ''ampUrlPrefix'')
             (field w1 (length (heap w)) ''ampRuntimeVersion'')
             (field w1 (length (heap w)) ''lts'') w1 = (Inr (), w2)
         \<and> try_ampRuntimeStyles env config (length (heap w))
             (field w1 (length (heap w)) ''ampUrlPrefix'')
             (field w1 (length (heap w)) ''ampRuntimeStyles'') w2 = (Inr (), w3)
         \<and> fetchRuntimeParameters env config custom w = (Inr (length (heap w)), w3)
         \<and> heap w1 = heap w @ [o1] \<and> heap w2 = heap w @ [o2] \<and> heap w3 = heap w @ [o3]
         \<and> (\<forall>k. k \<noteq> ''validatorRules'' \<longrightarrow>
               lookup o1 k = lookup (flags_object config (heap w ! custom)) k)
         \<and> (\<forall>k. k \<noteq> ''ampRuntimeVersion'' \<longrightarrow> lookup o2 k = lookup o1 k)
         \<and> (\<forall>k. k \<noteq> ''ampRuntimeStyles'' \<longrightarrow> lookup o3 k = lookup o2 k)"
proof -
  let ?rp = "length (heap w)"
  let ?w0 = "after_flags config custom w"
  have l0: "?rp < length (heap ?w0)" by (simp add: after_flags_def)
  from try_validatorRules_total [OF l0, of env config]
  obtain w1 o1 where 1: "try_validatorRules env config ?rp ?w0 = (Inr (), w1)"
    and h1: "heap w1 = (heap ?w0)[?rp := o1]"
    and k1: "\<forall>k'. k' \<noteq> ''validatorRules'' \<longrightarrow> lookup o1 k' = lookup (heap ?w0 ! ?rp) k'"
    by blast
  have h1': "heap w1 = heap w @ [o1]" using h1 by (simp add: after_flags_def)
  have l1: "?rp < length (heap w1)" using h1' by simp
  from try_ampRuntimeVersion_total [OF l1]
  obtain w2 o2 where 2: "try_ampRuntimeVersion config ?rp (field w1 ?rp ''ampUrlPrefix'')
      (field w1 ?rp ''ampRuntimeVersion'') (field w1 ?rp ''lts'') w1 = (Inr (), w2)"
    and h2: "heap w2 = (heap w1)[?rp := o2]"
    and k2: "\<forall>k'. k' \<noteq> ''ampRuntimeVersion'' \<longrightarrow> lookup o2 k' = lookup (heap w1 ! ?rp) k'"
    by blast
  have h2': "heap w2 = heap w @ [o2]" using h2 h1' by simp
  have l2: "?rp < length (heap w2)" using h2' by simp
  from try_ampRuntimeStyles_total [OF l2]
  obtain w3 o3 where 3: "try_ampRuntimeStyles env config ?rp (field w1 ?rp ''ampUrlPrefix'')
      (field w1 ?rp ''ampRuntimeStyles'') w2 = (Inr (), w3)"
    and h3: "heap w3 = (heap w2)[?rp := o3]"
    and k3: "\<forall>k'. k' \<noteq> ''ampRuntimeStyles'' \<longrightarrow> lookup o3 k' = lookup (heap w2 ! ?rp) k'"
    by blast
  have h3': "heap w3 = heap w @ [o3]" using h3 h2' by simp
  have reads: "read_field ?rp k w1 = (Inr (field w1 ?rp k), w1)" for k
    using l1 by (simp add: read_field_def obj_at_def field_def)
  have run: "fetchRuntimeParameters env config custom w = (Inr ?rp, w3)"
    unfolding fetchRuntimeParameters_init [OF assms]
    by (simp add: bindP_def 1 reads 2 3 returnP_def)
  have k1': "\<forall>k. k \<noteq> ''validatorRules'' \<longrightarrow>
      lookup o1 k = lookup (flags_object config (heap w ! custom)) k"
    using k1 by (simp add: after_flags_def)
  have k2': "\<forall>k. k \<noteq> ''ampRuntimeVersion'' \<longrightarrow> lookup o2 k = lookup o1 k"
    using k2 h1' by simp
  have k3': "\<forall>k. k \<noteq> ''ampRuntimeStyles'' \<longrightarrow> lookup o3 k = lookup o2 k"
    using k3 h2' by simp
  from 1 2 3 run h1' h2' h3' k1' k2' k3' show ?thesis by blast
qed

subsection \<open>Failures of the sub-resolutions\<close>

text \<open>
  Claim C1. For every environment, config and world, and every object
  \<open>customRuntimeParameters\<close>, \<open>fetchRuntimeParameters\<close> returns a reference to a new
  object and never rejects: after the flags are copied, the three \<open>try\<close> blocks
  (validator rules, runtime version, runtime styles) run one after the other and each
  of them ends normally. When the sub-resolution of a block fails with an error, the
  block logs that error through \<open>config.log.error\<close> and assigns nothing: the heap is
  as it was before the block, so the field keeps what the copy of
  \<open>customRuntimeParameters\<close> had for it, which is nothing unless the caller set it.
\<close>

theorem fetchRuntimeParameters_never_rejects:
  assumes "custom < length (heap w)"
  shows "(\<exists>w1 w2 w3.
           try_validatorRules env config (length (heap w)) (after_flags config custom w) = (Inr (), w1)
         \<and> try_ampRuntimeVersion config (length (heap w))
             (field w1 (length (heap w)) ''ampUrlPrefix'')
             (field w1 (length (heap w)) ''ampRuntimeVersion'')
             (field w1 (length (heap w)) ''lts'') w1 = (Inr (), w2)
         \<and> try_ampRuntimeStyles env config (length (heap w))
             (field w1 (length (heap w)) ''ampUrlPrefix'')
             (field w1 (length (heap w)) ''ampRuntimeStyles'') w2 = (Inr (), w3)
         \<and> fetchRuntimeParameters env config custom w = (Inr (length (heap w)), w3))
       \<and> (\<not> truthy (lookup (props config) ''validatorRules'') \<longrightarrow>
            fetchValidatorRules env u = (Inl e, u') \<longrightarrow>
            try_validatorRules env config rp u =
              (Inr (), u'\<lparr>logged := logged u' @
                 [LogError ''Could not fetch validator rules'' (Some e)]\<rparr>)
            \<and> heap u' = heap u)
       \<and> (\<not> truthy v \<longrightarrow>
            fetchAmpRuntimeVersion \<lparr>ctx_config = config, ctx_ampUrlPrefix = p, ctx_lts = l\<rparr> u
              = (Inl e, u') \<longrightarrow>
            try_ampRuntimeVersion config rp p v l u =
              (Inr (), u'\<lparr>logged := logged u' @
                 [LogError ''Could not fetch latest AMP runtime version'' (Some e)]\<rparr>)
            \<and> heap u' = heap u)
       \<and> (\<not> truthy s \<longrightarrow> rp < length (heap u) \<longrightarrow>
            fetchAmpRuntimeStyles env (Config config) p (field u rp ''ampRuntimeVersion'') u
              = (Inl e, u') \<longrightarrow>
            try_ampRuntimeStyles env config rp p s u =
              (Inr (), u'\<lparr>logged := logged u' @
                 [LogError ''Could not fetch AMP runtime CSS'' (Some e)]\<rparr>)
            \<and> heap u' = heap u)"
proof (intro conjI impI)
  show "\<exists>w1 w2 w3.
           try_validatorRules env config (length (heap w)) (after_flags config custom w) = (Inr (), w1)
         \<and> try_ampRuntimeVersion config (length (heap w))
             (field w1 (length (heap w)) ''ampUrlPrefix'')
             (field w1 (length (heap w)) ''ampRuntimeVersion'')
             (field w1 (length (heap w)) ''lts'') w1 = (Inr (), w2)
         \<and> try_ampRuntimeStyles env config (length (heap w))
             (field w1 (length (heap w)) ''ampUrlPrefix'')
             (field w1 (length (heap w)) ''ampRuntimeStyles'') w2 = (Inr (), w3)
         \<and> fetchRuntimeParameters env config custom w = (Inr (length (heap w)), w3)"
    using fetchRuntimeParameters_run [OF assms, of env config]
    apply (elim exE conjE)
    subgoal for w1 w2 w3 o1 o2 o3
      by (intro exI [of _ w1] exI [of _ w2] exI [of _ w3] conjI)
    done
next
  assume "\<not> truthy (lookup (props config) ''validatorRules'')"
    and f: "fetchValidatorRules env u = (Inl e, u')"
  then show "try_validatorRules env config rp u =
      (Inr (), u'\<lparr>logged := logged u' @ [LogError ''Could not fetch validator rules'' (Some e)]\<rparr>)"
    by (simp add: try_validatorRules_def tryP_def bindP_def config_log_error_def)
  show "heap u' = heap u" using heap_kept_rules f by (rule heap_keptD)
next
  assume "\<not> truthy v"
    and f: "fetchAmpRuntimeVersion \<lparr>ctx_config = config, ctx_ampUrlPrefix = p, ctx_lts = l\<rparr> u
              = (Inl e, u')"
  then show "try_ampRuntimeVersion config rp p v l u =
      (Inr (), u'\<lparr>logged := logged u' @
         [LogError ''Could not fetch latest AMP runtime version'' (Some e)]\<rparr>)"
    by (simp add: try_ampRuntimeVersion_def tryP_def bindP_def config_log_error_def)
  show "heap u' = heap u" using heap_kept_version f by (rule heap_keptD)
next
  assume "\<not> truthy s" and "rp < length (heap u)"
    and f: "fetchAmpRuntimeStyles env (Config config) p (field u rp ''ampRuntimeVersion'') u
              = (Inl e, u')"
  then show "try_ampRuntimeStyles env config rp p s u =
      (Inr (), u'\<lparr>logged := logged u' @ [LogError ''Could not fetch AMP runtime CSS'' (Some e)]\<rparr>)"
    by (simp add: try_ampRuntimeStyles_def tryP_def bindP_def config_log_error_def
        read_field_def obj_at_def field_def)
  show "heap u' = heap u" using heap_kept_fetchStyles f by (rule heap_keptD)
qed

theorem fetchRuntimeParameters_never_rejects_witness:
  "0 < length (heap unreadable_world)
   \<and> fetchRuntimeParameters example_env offline_config 0 unreadable_world =
       (Inr 1,
        unreadable_world
          \<lparr>heap := [[], [(''verbose'', JBool False), (''lts'', JBool False), (''rtv'', JBool False)]],
            logged :=
              [LogError ''Could not fetch validator rules'' (Some (Failure ''cache'')),
               LogError ''Could not fetch latest AMP runtime version'' (Some (Failure ''cache'')),
               LogError ''Could not fetch AMP runtime CSS'' (Some (Failure ''cache''))]\<rparr>)
   \<and> \<not> truthy (lookup (props offline_config) ''validatorRules'')
   \<and> fetchValidatorRules example_env unreadable_world = (Inl (Failure ''cache''), unreadable_world)
   \<and> try_validatorRules example_env offline_config 0 unreadable_world =
       (Inr (), unreadable_world\<lparr>logged :=
          [LogError ''Could not fetch validator rules'' (Some (Failure ''cache''))]\<rparr>)
   \<and> fetchAmpRuntimeVersion
        \<lparr>ctx_config = offline_config, ctx_ampUrlPrefix = Undefined, ctx_lts = JBool False\<rparr>
        unreadable_world = (Inl (Failure ''cache''), unreadable_world)
   \<and> try_ampRuntimeVersion offline_config 0 Undefined Undefined (JBool False) unreadable_world =
       (Inr (), unreadable_world\<lparr>logged :=
          [LogError ''Could not fetch latest AMP runtime version'' (Some (Failure ''cache''))]\<rparr>)
   \<and> fetchAmpRuntimeStyles example_env (Config offline_config) Undefined
        (field unreadable_world 0 ''ampRuntimeVersion'') unreadable_world
       = (Inl (Failure ''cache''), unreadable_world)
   \<and> try_ampRuntimeStyles example_env offline_config 0 Undefined Undefined unreadable_world =
       (Inr (), unreadable_world\<lparr>logged :=
          [LogError ''Could not fetch AMP runtime CSS'' (Some (Failure ''cache''))]\<rparr>)"
  using fetchRuntimeParameters_never_rejects
          [where custom = 0 and w = unreadable_world and env = example_env
             and config = offline_config and u = unreadable_world and u' = unreadable_world
             and e = "Failure ''cache''" and rp = 0 and v = Undefined and p = Undefined
             and l = "JBool False" and s = Undefined]
  by (simp add: fetchRuntimeParameters_def try_validatorRules_def try_ampRuntimeVersion_def
      try_ampRuntimeStyles_def Object_assign_new_def read_field_def write_field_def obj_at_def
      fetchValidatorRules_def version_defs fetchStyles_Config fetchStyles_Prim
      downloadAmpRuntimeStyles_def isAbsoluteUrl_def js_or_def prog_defs example_defs Let_def
      lookup_def field_def after_flags_def flags_object_def)

subsection \<open>The caller's object\<close>

text \<open>
  Claim C10. \<open>fetchRuntimeParameters\<close> never mutates \<open>customRuntimeParameters\<close>: for
  every environment, config and world, the result is a reference to an object that did
  not exist before the call, and every object that existed before the call, the
  caller's parameter object among them, is the same after the call. All assignments
  are made on the new object.
\<close>

theorem fetchRuntimeParameters_keeps_its_argument:
  assumes "custom < length (heap w)"
  shows "\<exists>w'. fetchRuntimeParameters env config custom w = (Inr (length (heap w)), w')
           \<and> take (length (heap w)) (heap w') = heap w
           \<and> heap w' ! custom = heap w ! custom"
  using fetchRuntimeParameters_run [OF assms, of env config] assms
  apply (elim exE conjE)
  subgoal for w1 w2 w3 o1 o2 o3
    by (intro exI [of _ w3]) (simp add: nth_append)
  done

theorem fetchRuntimeParameters_keeps_its_argument_witness:
  "0 < length (heap pinned_world)
   \<and> fst (fetchRuntimeParameters example_env versioned_config 0 pinned_world) = Inr 1
   \<and> take 1 (heap (snd (fetchRuntimeParameters example_env versioned_config 0 pinned_world)))
       = heap pinned_world
   \<and> heap (snd (fetchRuntimeParameters example_env versioned_config 0 pinned_world)) ! 0
       = [(''ampRuntimeVersion'', JStr ''7'')]
   \<and> heap (snd (fetchRuntimeParameters example_env versioned_config 0 pinned_world)) ! 1
       = [(''ampRuntimeVersion'', JStr ''7''), (''verbose'', JBool False), (''lts'', JBool False),
          (''rtv'', JBool False), (''validatorRules'', JObj [(''raw'', JStr ''rules'')]),
          (''ampRuntimeStyles'', JStr ''html{}'')]"
  using fetchRuntimeParameters_keeps_its_argument
          [where custom = 0 and w = pinned_world and env = example_env and config = versioned_config]
  by (simp add: fetchRuntimeParameters_def try_validatorRules_def try_ampRuntimeVersion_def
      try_ampRuntimeStyles_def Object_assign_new_def read_field_def write_field_def obj_at_def
      fetchValidatorRules_def version_defs fetchStyles_Config fetchStyles_Prim
      downloadAmpRuntimeStyles_def isAbsoluteUrl_def js_or_def prog_defs example_defs Let_def
      lookup_def KEY_VALIDATOR_RULES_def)

subsection \<open>Where the runtime version comes from\<close>

lemma config_capabilities_props:
  "config_fetch (Config (c\<lparr>props := ps\<rparr>)) = config_fetch (Config c)"
  "config_currentVersion (Config (c\<lparr>props := ps\<rparr>)) = config_currentVersion (Config c)"
  "config_log_warn (Config (c\<lparr>props := ps\<rparr>)) = config_log_warn (Config c)"
  "config_log_error (Config (c\<lparr>props := ps\<rparr>)) = config_log_error (Config c)"
  by (simp_all add: config_fetch_def config_currentVersion_def config_log_warn_def
      config_log_error_def fun_eq_iff)

lemma fetchStyles_props:
  "fetchAmpRuntimeStyles env (Config (c\<lparr>props := ps\<rparr>)) a b = fetchAmpRuntimeStyles env (Config c) a b"
  unfolding fetchStyles_Config downloadAmpRuntimeStyles_def config_capabilities_props
  by (rule refl)

lemma fetchVersion_props:
  "fetchAmpRuntimeVersion \<lparr>ctx_config = c\<lparr>props := ps\<rparr>, ctx_ampUrlPrefix = p, ctx_lts = l\<rparr> =
   fetchAmpRuntimeVersion \<lparr>ctx_config = c, ctx_ampUrlPrefix = p, ctx_lts = l\<rparr>"
  unfolding fetchAmpRuntimeVersion_def fetchLatestRuntimeData_def
    fetchLatestRuntimeData_call_def fetchLatestRuntimeData_unawaited_def
    call_context.select_convs config_capabilities_props
  by (rule refl)

lemma fetchRuntimeParameters_props:
  "fetchRuntimeParameters env (config\<lparr>props := AList.update ''ampRuntimeVersion'' x (props config)\<rparr>)
     custom =
   fetchRuntimeParameters env config custom"
  unfolding fetchRuntimeParameters_def try_validatorRules_def try_ampRuntimeVersion_def
    try_ampRuntimeStyles_def config_capabilities_props fetchStyles_props fetchVersion_props
    config.select_convs config.update_convs
  by (simp add: lookup_update cong del: if_weak_cong)

text \<open>
  Claim C6, as the claim states it, fails: an \<open>ampRuntimeVersion\<close> provided by the
  config is not used. Here the config carries \<open>ampRuntimeVersion: '1'\<close>, the caller's
  parameters are \<open>{}\<close> and the version source answers 2: the version resolver is
  called and the result carries version 2.
\<close>

theorem config_version_is_not_consulted:
  "case fetchRuntimeParameters example_env versioned_config 0 example_world of
     (r, w') \<Rightarrow>
       lookup (props versioned_config) ''ampRuntimeVersion'' = JStr ''1''
       \<and> r = Inr 1
       \<and> field w' 1 ''ampRuntimeVersion'' = JStr ''2''
       \<and> version_calls w' = [version_args Undefined (JBool False)]"
  by (simp add: fetchRuntimeParameters_def try_validatorRules_def try_ampRuntimeVersion_def
      try_ampRuntimeStyles_def Object_assign_new_def read_field_def write_field_def obj_at_def
      fetchValidatorRules_def version_defs fetchStyles_Config fetchStyles_Prim
      downloadAmpRuntimeStyles_def isAbsoluteUrl_def js_or_def prog_defs example_defs Let_def
      lookup_def field_def KEY_VALIDATOR_RULES_def MaxAge_create_def AMP_RUNTIME_MAX_AGE_def)

text \<open>
  Claim C6, amended. Resolution of \<open>ampRuntimeVersion\<close> follows the precedence explicit,
  then fetched, and the config is not consulted for it: whatever \<open>ampRuntimeVersion\<close>
  the config provides, \<open>fetchRuntimeParameters\<close> does the same. When
  \<open>customRuntimeParameters\<close> sets \<open>ampRuntimeVersion\<close> (to a truthy value), the block
  of lines 59 to 64 only assigns that value, without calling the version resolver, and
  the result carries it: the whole run is the validator-rules block, that assignment
  and the styles block. When it is unset, the block calls the version resolver and
  assigns what it returns.
\<close>

theorem version_precedence_explicit_then_fetched:
  "fetchRuntimeParameters env
     (config\<lparr>props := AList.update ''ampRuntimeVersion'' x (props config)\<rparr>) custom w
   = fetchRuntimeParameters env config custom w
   \<and> (rp < length (heap u) \<and> truthy v \<longrightarrow>
        try_ampRuntimeVersion config rp p v l u =
          (Inr (), u\<lparr>heap := (heap u)[rp := AList.update ''ampRuntimeVersion'' v (heap u ! rp)]\<rparr>))
   \<and> (rp < length (heap u) \<and> \<not> truthy v
        \<and> fetchAmpRuntimeVersion \<lparr>ctx_config = config, ctx_ampUrlPrefix = p, ctx_lts = l\<rparr> u
            = (Inr v', u') \<longrightarrow>
        try_ampRuntimeVersion config rp p v l u =
          (Inr (), u'\<lparr>heap := (heap u')[rp := AList.update ''ampRuntimeVersion'' v' (heap u' ! rp)]\<rparr>))
   \<and> (custom < length (heap w) \<and> truthy (field w custom ''ampRuntimeVersion'') \<longrightarrow>
        (\<exists>w1 w3.
           try_validatorRules env config (length (heap w)) (after_flags config custom w) = (Inr (), w1)
           \<and> try_ampRuntimeStyles env config (length (heap w))
               (field w1 (length (heap w)) ''ampUrlPrefix'')
               (field w1 (length (heap w)) ''ampRuntimeStyles'')
               (w1\<lparr>heap := (heap w1)[length (heap w) :=
                      AList.update ''ampRuntimeVersion'' (field w custom ''ampRuntimeVersion'')
                        (heap w1 ! length (heap w))]\<rparr>) = (Inr (), w3)
           \<and> fetchRuntimeParameters env config custom w = (Inr (length (heap w)), w3)
           \<and> field w3 (length (heap w)) ''ampRuntimeVersion'' = field w custom ''ampRuntimeVersion''))"
proof (intro conjI impI)
  show "fetchRuntimeParameters env
     (config\<lparr>props := AList.update ''ampRuntimeVersion'' x (props config)\<rparr>) custom w
   = fetchRuntimeParameters env config custom w"
    by (simp add: fetchRuntimeParameters_props)
next
  assume "rp < length (heap u) \<and> truthy v"
  then show "try_ampRuntimeVersion config rp p v l u =
          (Inr (), u\<lparr>heap := (heap u)[rp := AList.update ''ampRuntimeVersion'' v (heap u ! rp)]\<rparr>)"
    by (simp add: try_ampRuntimeVersion_def tryP_def bindP_def returnP_def write_field_def obj_at_def)
next
  assume a: "rp < length (heap u) \<and> \<not> truthy v
        \<and> fetchAmpRuntimeVersion \<lparr>ctx_config = config, ctx_ampUrlPrefix = p, ctx_lts = l\<rparr> u
            = (Inr v', u')"
  then have "heap u' = heap u" using heap_kept_version by (blast intro: heap_keptD)
  with a show "try_ampRuntimeVersion config rp p v l u =
          (Inr (), u'\<lparr>heap := (heap u')[rp := AList.update ''ampRuntimeVersion'' v' (heap u' ! rp)]\<rparr>)"
    by (simp add: try_ampRuntimeVersion_def tryP_def bindP_def write_field_def obj_at_def)
next
  assume a: "custom < length (heap w) \<and> truthy (field w custom ''ampRuntimeVersion'')"
  let ?rp = "length (heap w)"
  let ?v = "field w custom ''ampRuntimeVersion''"
  from a have c: "custom < length (heap w)" and t: "truthy ?v" by simp_all
  from fetchRuntimeParameters_run [OF c, of env config]
  obtain w1 w2 w3 o1 o2 o3 where
    1: "try_validatorRules env config ?rp (after_flags config custom w) = (Inr (), w1)"
    and 2: "try_ampRuntimeVersion config ?rp (field w1 ?rp ''ampUrlPrefix'')
             (field w1 ?rp ''ampRuntimeVersion'') (field w1 ?rp ''lts'') w1 = (Inr (), w2)"
    and 3: "try_ampRuntimeStyles env config ?rp (field w1 ?rp ''ampUrlPrefix'')
             (field w1 ?rp ''ampRuntimeStyles'') w2 = (Inr (), w3)"
    and r: "fetchRuntimeParameters env config custom w = (Inr ?rp, w3)"
    and h1: "heap w1 = heap w @ [o1]" and h2: "heap w2 = heap w @ [o2]"
    and h3: "heap w3 = heap w @ [o3]"
    and k1: "\<forall>k. k \<noteq> ''validatorRules'' \<longrightarrow>
               lookup o1 k = lookup (flags_object config (heap w ! custom)) k"
    and k3: "\<forall>k. k \<noteq> ''ampRuntimeStyles'' \<longrightarrow> lookup o3 k = lookup o2 k"
    by (elim exE conjE)
  have v1: "field w1 ?rp ''ampRuntimeVersion'' = ?v"
    using h1 k1 by (simp add: field_def flags_object_def lookup_update)
  have l1: "?rp < length (heap w1)" using h1 by simp
  have w2: "w2 = w1\<lparr>heap := (heap w1)[?rp := AList.update ''ampRuntimeVersion'' ?v (heap w1 ! ?rp)]\<rparr>"
    using 2 t l1 unfolding v1
    by (simp add: try_ampRuntimeVersion_def tryP_def bindP_def returnP_def write_field_def obj_at_def)
  have "o2 = AList.update ''ampRuntimeVersion'' ?v o1"
    using h2 h1 w2 by simp
  then have "lookup o3 ''ampRuntimeVersion'' = ?v"
    using k3 by (simp add: lookup_update)
  then have v3: "field w3 ?rp ''ampRuntimeVersion'' = ?v"
    using h3 by (simp add: field_def)
  from 1 3 r v3 show "\<exists>w1 w3.
           try_validatorRules env config (length (heap w)) (after_flags config custom w) = (Inr (), w1)
           \<and> try_ampRuntimeStyles env config (length (heap w))
               (field w1 (length (heap w)) ''ampUrlPrefix'')
               (field w1 (length (heap w)) ''ampRuntimeStyles'')
               (w1\<lparr>heap := (heap w1)[length (heap w) :=
                      AList.update ''ampRuntimeVersion'' (field w custom ''ampRuntimeVersion'')
                        (heap w1 ! length (heap w))]\<rparr>) = (Inr (), w3)
           \<and> fetchRuntimeParameters env config custom w = (Inr (length (heap w)), w3)
           \<and> field w3 (length (heap w)) ''ampRuntimeVersion'' = field w custom ''ampRuntimeVersion''"
    unfolding w2 by (intro exI [of _ w1] exI [of _ w3] conjI)
qed


theorem version_precedence_explicit_then_fetched_witness:
  "fetchRuntimeParameters example_env
     (offline_config\<lparr>props := AList.update ''ampRuntimeVersion'' (JStr ''1'') (props offline_config)\<rparr>)
     0 example_world
   = fetchRuntimeParameters example_env offline_config 0 example_world
   \<and> 0 < length (heap pinned_world) \<and> truthy (JStr ''7'')
   \<and> try_ampRuntimeVersion versioned_config 0 Undefined (JStr ''7'') (JBool False) pinned_world =
       (Inr (), pinned_world)
   \<and> \<not> truthy Undefined
   \<and> fst (fetchAmpRuntimeVersion
        \<lparr>ctx_config = versioned_config, ctx_ampUrlPrefix = Undefined, ctx_lts = JBool False\<rparr>
        example_world) = Inr (JStr ''2'')
   \<and> heap (snd (try_ampRuntimeVersion versioned_config 0 Undefined Undefined (JBool False)
        example_world)) = [[(''ampRuntimeVersion'', JStr ''2'')]]
   \<and> truthy (field pinned_world 0 ''ampRuntimeVersion'')
   \<and> fst (fetchRuntimeParameters example_env versioned_config 0 pinned_world) = Inr 1
   \<and> field (snd (fetchRuntimeParameters example_env versioned_config 0 pinned_world)) 1
        ''ampRuntimeVersion'' = JStr ''7''
   \<and> version_calls (snd (fetchRuntimeParameters example_env versioned_config 0 pinned_world)) = []"
  using version_precedence_explicit_then_fetched
          [where env = example_env and config = offline_config and x = "JStr ''1''"
             and custom = 0 and w = example_world, THEN conjunct1]
        version_precedence_explicit_then_fetched
          [where config = versioned_config and rp = 0 and u = pinned_world and v = "JStr ''7''"
             and p = Undefined and l = "JBool False", THEN conjunct2, THEN conjunct1]
        version_precedence_explicit_then_fetched
          [where config = versioned_config and rp = 0 and u = example_world and v = Undefined
             and p = Undefined and l = "JBool False" and v' = "JStr ''2''"
             and u' = "snd (fetchAmpRuntimeVersion
                 \<lparr>ctx_config = versioned_config, ctx_ampUrlPrefix = Undefined,
                    ctx_lts = JBool False\<rparr> example_world)",
           THEN conjunct2, THEN conjunct2, THEN conjunct1]
        version_precedence_explicit_then_fetched
          [where env = example_env and config = versioned_config and custom = 0
             and w = pinned_world, THEN conjunct2, THEN conjunct2, THEN conjunct2]
  by (simp add: fetchRuntimeParameters_def try_validatorRules_def try_ampRuntimeVersion_def
      try_ampRuntimeStyles_def Object_assign_new_def read_field_def write_field_def obj_at_def
      fetchValidatorRules_def version_defs fetchStyles_Config fetchStyles_Prim
      downloadAmpRuntimeStyles_def isAbsoluteUrl_def js_or_def prog_defs example_defs Let_def
      lookup_def field_def after_flags_def flags_object_def KEY_VALIDATOR_RULES_def
      MaxAge_create_def AMP_RUNTIME_MAX_AGE_def)

end
